theory Spec2Isabelle
  imports Main "HOL-Library.AList"
begin

section \<open>Python values and errors\<close>

text \<open>
  The three scripts are embedded as state-passing functions. A Python string is a
  \<open>string\<close> whose characters are code points below 256. A \<open>Path\<close> object is the string
  that pathlib prints for it on POSIX, where \<open>str\<close> and \<open>as_posix\<close> agree; \<open>Path\<close> below
  builds it from the text of an argument. Files are stored under that string.

  An exception that leaves a function is a value of \<open>py_error\<close>; \<open>sys.exit(n)\<close> and
  \<open>typer.Exit(code=n)\<close> are both \<open>SystemExit n\<close>.
\<close>

datatype py_error =
    ValueError string
  | TypeError
  | EOFError
  | FileNotFoundError
  | SystemExit int

text \<open>The exit status of the interpreter: an uncaught exception other than
  \<open>SystemExit\<close> ends the process with status 1.\<close>

fun exit_status :: "py_error + 'a \<Rightarrow> int" where
  "exit_status (Inr _) = 0"
| "exit_status (Inl (SystemExit n)) = n"
| "exit_status (Inl _) = 1"

subsection \<open>String methods\<close>

text \<open>\<open>str.isspace\<close> on the code points below 256.\<close>

definition isspace :: "char \<Rightarrow> bool" where
  "isspace c = (c \<in> set [CHR 0x09, CHR 0x0A, CHR 0x0B, CHR 0x0C, CHR 0x0D,
                          CHR 0x1C, CHR 0x1D, CHR 0x1E, CHR 0x1F, CHR 0x20,
                          CHR 0x85, CHR 0xA0])"

definition strip :: "string \<Rightarrow> string" where
  "strip s = rev (dropWhile isspace (rev (dropWhile isspace s)))"

text \<open>\<open>str.lower\<close> on the code points below 256: A-Z and the Latin-1 capitals
  (0xC0-0xDE without the multiplication sign 0xD7) move up by 32.\<close>

definition lower_char :: "char \<Rightarrow> char" where
  "lower_char c =
     (let n = (of_char c :: nat)
      in if 65 \<le> n \<and> n \<le> 90 then char_of (n + 32)
         else if n = 215 then c
         else if 192 \<le> n \<and> n \<le> 222 then char_of (n + 32)
         else c)"

definition lower :: "string \<Rightarrow> string" where
  "lower s = map lower_char s"

definition startswith :: "string \<Rightarrow> string \<Rightarrow> bool" where
  "startswith s p = (take (length p) s = p)"

text \<open>The line boundaries of \<open>str.splitlines\<close> below 256; \<open>\\r\\n\<close> is one boundary.\<close>

definition is_linebreak :: "char \<Rightarrow> bool" where
  "is_linebreak c = (c \<in> set [CHR 0x0A, CHR 0x0B, CHR 0x0C, CHR 0x0D,
                               CHR 0x1C, CHR 0x1D, CHR 0x1E, CHR 0x85])"

fun splitlines_from :: "string \<Rightarrow> string \<Rightarrow> string list" where
  "splitlines_from cur [] = (if cur = [] then [] else [cur])"
| "splitlines_from cur (c # cs) =
     (if c = CHR 0x0D then
        (case cs of
           [] \<Rightarrow> [cur]
         | d # ds \<Rightarrow> if d = CHR 0x0A then cur # splitlines_from [] ds
                     else cur # splitlines_from [] (d # ds))
      else if is_linebreak c then cur # splitlines_from [] cs
      else splitlines_from (cur @ [c]) cs)"

definition splitlines :: "string \<Rightarrow> string list" where
  "splitlines s = splitlines_from [] s"

text \<open>\<open>pair.split("=", 1)\<close> on a string that contains the separator.\<close>

definition split_first_eq :: "string \<Rightarrow> string \<times> string" where
  "split_first_eq pair =
     (takeWhile (\<lambda>c. c \<noteq> CHR ''='') pair, tl (dropWhile (\<lambda>c. c \<noteq> CHR ''='') pair))"

subsection \<open>pathlib\<close>

text \<open>\<open>s.split(sep)\<close> for a separator of one character, and \<open>sep.join(xs)\<close>.\<close>

fun split_from :: "char \<Rightarrow> string \<Rightarrow> string \<Rightarrow> string list" where
  "split_from sep cur [] = [cur]"
| "split_from sep cur (c # cs) =
     (if c = sep then cur # split_from sep [] cs else split_from sep (cur @ [c]) cs)"

definition str_split :: "string \<Rightarrow> char \<Rightarrow> string list" where
  "str_split s sep = split_from sep [] s"

fun str_join :: "string \<Rightarrow> string list \<Rightarrow> string" where
  "str_join sep [] = []"
| "str_join sep [x] = x"
| "str_join sep (x # y # ys) = x @ sep @ str_join sep (y # ys)"

text \<open>\<open>posixpath.splitroot\<close>: no root, the root \<open>/\<close>, or the root \<open>//\<close> when the text
  starts with exactly two slashes; the second component is the rest.\<close>

definition splitroot :: "string \<Rightarrow> string \<times> string" where
  "splitroot p =
     (if take 1 p \<noteq> ''/'' then ('''', p)
      else if take 1 (drop 1 p) \<noteq> ''/'' then (''/'', drop 1 p)
      else if take 1 (drop 2 p) = ''/'' then (''/'', drop 1 p)
      else (''//'', drop 2 p))"

text \<open>
  \<open>str(Path(s))\<close> on POSIX: the rest after the root is split at \<open>/\<close>, empty components
  and \<open>.\<close> components are dropped, \<open>..\<close> is kept, and the root and the components
  joined by \<open>/\<close> are printed, or \<open>.\<close> when nothing is left. So \<open>./compose.yml\<close> prints as
  \<open>compose.yml\<close> and \<open>conf//dev.env\<close> as \<open>conf/dev.env\<close>.
\<close>

definition Path :: "string \<Rightarrow> string" where
  "Path s =
     (case splitroot s of
        (root, rel) \<Rightarrow>
          (let tail = filter (\<lambda>x. x \<noteq> [] \<and> x \<noteq> ''.'') (str_split rel CHR ''/'');
               printed = root @ str_join ''/'' tail
           in if printed = [] then ''.'' else printed))"

section \<open>The world a script runs in\<close>

text \<open>
  \<open>sysenv\<close> is what an external process can change: the files (path and text),
  the executables on the search path, and the name \<open>platform.system()\<close> reports.
  \<open>world\<close> adds what the script itself consumes and produces: the lines the terminal
  will deliver to \<open>input\<close> and \<open>getpass\<close>, the external commands invoked so far, and
  the names looked up with \<open>shutil.which\<close> so far.
\<close>

record sysenv =
  files :: "(string \<times> string) list"
  tools :: "string list"
  system :: string

record world =
  sys :: sysenv
  stdin :: "string list"
  invoked :: "string list list"
  probed :: "string list"

datatype run_result = Exited int | NotFound

type_synonym executor = "string list \<Rightarrow> sysenv \<Rightarrow> run_result \<times> sysenv"

type_synonym 'a proc = "world \<Rightarrow> (py_error + 'a) \<times> world"

definition exists :: "string \<Rightarrow> world \<Rightarrow> bool" where
  "exists p w = (map_of (files (sys w)) p \<noteq> None)"

definition read_text :: "string \<Rightarrow> world \<Rightarrow> string" where
  "read_text p w = (case map_of (files (sys w)) p of None \<Rightarrow> [] | Some t \<Rightarrow> t)"

definition write_text :: "string \<Rightarrow> string \<Rightarrow> world \<Rightarrow> world" where
  "write_text p t w = w\<lparr>sys := (sys w)\<lparr>files := AList.update p t (files (sys w))\<rparr>\<rparr>"

text \<open>\<open>shutil.which(name)\<close> as a truth value.\<close>

definition which :: "string \<Rightarrow> world \<Rightarrow> bool \<times> world" where
  "which name w = (name \<in> set (tools (sys w)), w\<lparr>probed := probed w @ [name]\<rparr>)"

text \<open>\<open>input(prompt)\<close> and \<open>getpass.getpass(prompt)\<close>: the next line of the terminal,
  \<open>EOFError\<close> when there is none.\<close>

definition input :: "string proc" where
  "input w = (case stdin w of
                [] \<Rightarrow> (Inl EOFError, w)
              | l # ls \<Rightarrow> (Inr l, w\<lparr>stdin := ls\<rparr>))"

definition getpass :: "string proc" where
  "getpass w = input w"

section \<open>make\_env.py\<close>

fun parse_kv_loop :: "(string \<times> string) list \<Rightarrow> string list \<Rightarrow> py_error + (string \<times> string) list" where
  "parse_kv_loop result [] = Inr result"
| "parse_kv_loop result (pair # pairs) =
     (if CHR ''='' \<notin> set pair then Inl (ValueError (''Invalid pair: '' @ pair))
      else parse_kv_loop (result @ [split_first_eq pair]) pairs)"

definition parse_kv :: "string list \<Rightarrow> py_error + (string \<times> string) list" where
  "parse_kv pairs = parse_kv_loop [] pairs"

definition ensure_gitignore :: "string \<Rightarrow> unit proc" where
  "ensure_gitignore out_path w =
     (if \<not> exists ''.gitignore'' w then (Inr (), w)
      else let content = splitlines (read_text ''.gitignore'' w)
           in if out_path \<notin> set content
              then (Inr (), write_text ''.gitignore'' (concat (content @ [out_path]) @ '''') w)
              else (Inr (), w))"

text \<open>
  The command line of \<open>main\<close> after argparse has split it: the value given to
  \<open>--github-pat\<close> and to \<open>--out\<close>, if any, and the positional arguments.
  \<open>parse_args\<close> applies what lines 22 and 23 declare: the default \<open>.env\<close> of \<open>--out\<close>,
  and \<open>nargs="+"\<close> of \<open>pairs\<close>, under which argparse ends the run with status 2 when
  no positional argument is given.
\<close>

record env_cli =
  cli_github_pat :: "string option"
  cli_out :: "string option"
  cli_pairs :: "string list"

record env_args =
  github_pat :: "string option"
  out :: string
  pairs :: "string list"

definition parse_args :: "env_cli \<Rightarrow> py_error + env_args" where
  "parse_args cli =
     (if cli_pairs cli = [] then Inl (SystemExit 2)
      else Inr \<lparr>github_pat = cli_github_pat cli,
                out = (case cli_out cli of None \<Rightarrow> ''.env'' | Some p \<Rightarrow> p),
                pairs = cli_pairs cli\<rparr>)"

text \<open>The truth value of \<open>args.github_pat\<close>: given and not empty.\<close>

definition truthy :: "string option \<Rightarrow> bool" where
  "truthy v = (case v of None \<Rightarrow> False | Some s \<Rightarrow> s \<noteq> [])"

text \<open>Line 31, \<open>[f"{k}={v}" for k, v in kvs]\<close>, and the text line 32 writes,
  \<open>"".join(lines) + ""\<close>.\<close>

definition env_lines :: "(string \<times> string) list \<Rightarrow> string list" where
  "env_lines kvs = map (\<lambda>(k, v). k @ ''='' @ v) kvs"

definition env_text :: "string list \<Rightarrow> string" where
  "env_text lines = concat lines @ ''''"

text \<open>
  Line 21 calls the value \<open>parser.add_argument\<close> returns, an argparse \<open>Action\<close>, with the
  single keyword \<open>description\<close>. \<open>Action.__call__\<close> takes \<open>parser\<close>, \<open>namespace\<close> and
  \<open>values\<close> and no such keyword, so the call raises \<open>TypeError\<close>.
\<close>

definition add_argument_github_pat :: "py_error + unit" where
  "add_argument_github_pat = Inl TypeError"

text \<open>
  Lines 22 to 33 of \<open>main\<close>. Line 28 appends the token entry and then calls the result
  of \<open>kvs.append\<close>, which is \<open>None\<close>: \<open>TypeError\<close>, before anything is written. Line 33
  runs \<open>ensure_gitignore(out)\<close> and then calls its result, \<open>None\<close>: \<open>TypeError\<close>, after
  the file and the ignore list have been written. Line 29 is \<open>out = Path(args.out)\<close>.
\<close>

definition main_from_line_22 :: "env_cli \<Rightarrow> unit proc" where
  "main_from_line_22 cli w =
     (case parse_args cli of
        Inl e \<Rightarrow> (Inl e, w)
      | Inr args \<Rightarrow>
          (case parse_kv (pairs args) of
             Inl e \<Rightarrow> (Inl e, w)
           | Inr kvs \<Rightarrow>
               if truthy (github_pat args) then (Inl TypeError, w)
               else
                 (case ensure_gitignore (Path (out args))
                         (write_text (Path (out args)) (env_text (env_lines kvs)) w) of
                    (Inl e, w') \<Rightarrow> (Inl e, w')
                  | (Inr _, w') \<Rightarrow> (Inl TypeError, w'))))"

definition main :: "env_cli \<Rightarrow> unit proc" where
  "main cli w =
     (case add_argument_github_pat of
        Inl e \<Rightarrow> (Inl e, w)
      | Inr _ \<Rightarrow> main_from_line_22 cli w)"

section \<open>scripts/run\_docker.py\<close>

definition r_ensure_gitignore_entry :: "string \<Rightarrow> unit proc" where
  "r_ensure_gitignore_entry path w =
     (if \<not> exists ''.gitignore'' w then (Inr (), w)
      else let rel = path;
               lines = splitlines (read_text ''.gitignore'' w)
           in if rel \<in> set lines then (Inr (), w)
              else (Inr (), write_text ''.gitignore'' (concat (lines @ [rel]) @ '''') w))"

text \<open>
  The \<open>while True\<close> loop of \<open>r_prompt_new_env\<close>, one terminal line per iteration:
  the lines collected so far and the lines the terminal still holds give the final
  \<open>lines\<close> and the unread rest, or \<open>EOFError\<close> when the terminal ends first.
\<close>

fun extra_env_loop :: "string list \<Rightarrow> string list \<Rightarrow> (py_error + string list) \<times> string list" where
  "extra_env_loop lines [] = (Inl EOFError, [])"
| "extra_env_loop lines (l # ls) =
     (let raw = strip l
      in if raw = [] then (Inr lines, ls)
         else if CHR ''='' \<notin> set raw then extra_env_loop lines ls
         else extra_env_loop (lines @ [raw]) ls)"

text \<open>Lines 43 to 48: the \<open>lines\<close> list before the loop.\<close>

definition pat_lines :: "string \<Rightarrow> string list" where
  "pat_lines pat =
     (if pat \<noteq> [] then [''GITHUB_PERSONAL_ACCESS_TOKEN='' @ pat] else [])"

definition r_prompt_new_env :: "string \<Rightarrow> unit proc" where
  "r_prompt_new_env env_path w =
     (case input w of
        (Inl e, w1) \<Rightarrow> (Inl e, w1)
      | (Inr a, w1) \<Rightarrow>
          if lower (strip a) \<notin> set [''y'', ''yes''] then (Inl (SystemExit 1), w1)
          else
            (case getpass w1 of
               (Inl e, w2) \<Rightarrow> (Inl e, w2)
             | (Inr g, w2) \<Rightarrow>
                 (case extra_env_loop (pat_lines (strip g)) (stdin w2) of
                    (Inl e, rest) \<Rightarrow> (Inl e, w2\<lparr>stdin := rest\<rparr>)
                  | (Inr lines, rest) \<Rightarrow>
                      r_ensure_gitignore_entry env_path
                        (write_text env_path
                           (if lines \<noteq> [] then concat lines @ '''' else '''')
                           (w2\<lparr>stdin := rest\<rparr>)))))"

definition r_ensure_env_file :: "string \<Rightarrow> unit proc" where
  "r_ensure_env_file env_path w =
     (if exists env_path w then r_ensure_gitignore_entry env_path w
      else r_prompt_new_env env_path w)"

text \<open>
  \<open>subprocess.run(cmd, check=True)\<close>: the command is recorded, the executor says how
  the process ends and what it leaves behind. \<open>FileNotFoundError\<close> becomes exit 1, a
  non-zero return code becomes an exit with that code.
\<close>

definition r_run_command :: "executor \<Rightarrow> string list \<Rightarrow> unit proc" where
  "r_run_command exec cmd w =
     (case exec cmd (sys w) of
        (NotFound, s) \<Rightarrow> (Inl (SystemExit 1), w\<lparr>sys := s, invoked := invoked w @ [cmd]\<rparr>)
      | (Exited c, s) \<Rightarrow>
          (if c \<noteq> 0 then Inl (SystemExit c) else Inr (),
           w\<lparr>sys := s, invoked := invoked w @ [cmd]\<rparr>))"

text \<open>
  \<open>subprocess.run(ps_cmd, check=False)\<close> in the Windows path: the return code is
  ignored, a missing \<open>powershell\<close> raises \<open>FileNotFoundError\<close>, which nothing catches.
\<close>

definition r_try_install_docker_windows :: "executor \<Rightarrow> unit proc" where
  "r_try_install_docker_windows exec w =
     (case which ''docker'' w of
        (True, w1) \<Rightarrow> (Inr (), w1)
      | (False, w1) \<Rightarrow>
          (case which ''choco'' w1 of
             (False, w2) \<Rightarrow> (Inl (SystemExit 1), w2)
           | (True, w2) \<Rightarrow>
               (let ps_cmd = [''powershell'', ''-Command'', ''Start-Process'', ''choco'',
                              ''-ArgumentList'', [CHR 0x27] @ ''install docker-desktop -y'' @ [CHR 0x27],
                              ''-Verb'', ''runAs'']
                in case exec ps_cmd (sys w2) of
                     (NotFound, s) \<Rightarrow>
                       (Inl FileNotFoundError, w2\<lparr>sys := s, invoked := invoked w2 @ [ps_cmd]\<rparr>)
                   | (Exited c, s) \<Rightarrow>
                       (Inl (SystemExit 1), w2\<lparr>sys := s, invoked := invoked w2 @ [ps_cmd]\<rparr>))))"

text \<open>\<open>except SystemExit\<close> of the Linux path: an exit of either command becomes exit 1,
  any other exception passes through.\<close>

definition except_SystemExit :: "py_error \<Rightarrow> py_error" where
  "except_SystemExit e = (case e of SystemExit c \<Rightarrow> SystemExit 1 | _ \<Rightarrow> e)"

definition r_try_install_docker_linux :: "executor \<Rightarrow> unit proc" where
  "r_try_install_docker_linux exec w =
     (case which ''docker'' w of
        (True, w1) \<Rightarrow> (Inr (), w1)
      | (False, w1) \<Rightarrow>
          (case which ''apt'' w1 of
             (False, w2) \<Rightarrow> (Inl (SystemExit 1), w2)
           | (True, w2) \<Rightarrow>
               (case r_run_command exec [''sudo'', ''apt'', ''update''] w2 of
                  (Inl e, w3) \<Rightarrow> (Inl (except_SystemExit e), w3)
                | (Inr _, w3) \<Rightarrow>
                    (case r_run_command exec
                            [''sudo'', ''apt'', ''install'', ''-y'', ''docker.io'',
                             ''docker-compose-plugin''] w3 of
                       (Inl e, w4) \<Rightarrow> (Inl (except_SystemExit e), w4)
                     | (Inr _, w4) \<Rightarrow> (Inr (), w4)))))"

definition r_try_install_docker_macos :: "executor \<Rightarrow> unit proc" where
  "r_try_install_docker_macos exec w =
     (case which ''docker'' w of
        (True, w1) \<Rightarrow> (Inr (), w1)
      | (False, w1) \<Rightarrow>
          (case which ''brew'' w1 of
             (False, w2) \<Rightarrow> (Inl (SystemExit 1), w2)
           | (True, w2) \<Rightarrow>
               (case r_run_command exec [''brew'', ''install'', ''--cask'', ''docker''] w2 of
                  (Inl e, w3) \<Rightarrow> (Inl e, w3)
                | (Inr _, w3) \<Rightarrow> (Inl (SystemExit 1), w3))))"

definition r_ensure_docker_available :: "executor \<Rightarrow> unit proc" where
  "r_ensure_docker_available exec w =
     (case which ''docker'' w of
        (True, w1) \<Rightarrow> (Inr (), w1)
      | (False, w1) \<Rightarrow>
          (let os = system (sys w1)
           in if os = ''Windows'' then r_try_install_docker_windows exec w1
              else if os = ''Linux'' then r_try_install_docker_linux exec w1
              else if os = ''Darwin'' then r_try_install_docker_macos exec w1
              else (Inl (SystemExit 1), w1)))"

definition base_cmd :: "string \<Rightarrow> string \<Rightarrow> string list" where
  "base_cmd compose env = [''docker'', ''compose'', ''--file'', compose, ''--env-file'', env]"

definition r_run_docker_compose :: "executor \<Rightarrow> string \<Rightarrow> string \<Rightarrow> bool \<Rightarrow> unit proc" where
  "r_run_docker_compose exec compose env pull w =
     (if pull then
        (case r_run_command exec (base_cmd compose env @ [''pull'']) w of
           (Inl e, w1) \<Rightarrow> (Inl e, w1)
         | (Inr _, w1) \<Rightarrow> r_run_command exec (base_cmd compose env @ [''up'']) w1)
      else r_run_command exec (base_cmd compose env @ [''up'']) w)"

text \<open>
  The command line of the runner after argparse has split it; \<open>r_parse_runner_args\<close>
  applies the declared defaults. The two file arguments are kept as the text given;
  \<open>r_main\<close> makes \<open>Path\<close> objects of them (lines 217 and 218), and \<open>r_run_docker_compose\<close>
  passes \<open>str\<close> of those on.
\<close>

record runner_cli =
  cli_env_file :: "string option"
  cli_compose_file :: "string option"
  cli_no_pull :: bool

record runner_args =
  env_file :: string
  compose_file :: string
  no_pull :: bool

definition r_parse_runner_args :: "runner_cli \<Rightarrow> runner_args" where
  "r_parse_runner_args cli =
     \<lparr>env_file = (case cli_env_file cli of None \<Rightarrow> ''.env'' | Some p \<Rightarrow> p),
      compose_file = (case cli_compose_file cli of None \<Rightarrow> ''compose.yml'' | Some p \<Rightarrow> p),
      no_pull = cli_no_pull cli\<rparr>"

definition r_main :: "executor \<Rightarrow> runner_cli \<Rightarrow> unit proc" where
  "r_main exec cli w =
     (let args = r_parse_runner_args cli;
          env_path = Path (env_file args);
          compose_path = Path (compose_file args)
      in if \<not> exists compose_path w then (Inl (SystemExit 1), w)
         else
           (case r_ensure_env_file env_path w of
              (Inl e, w1) \<Rightarrow> (Inl e, w1)
            | (Inr _, w1) \<Rightarrow>
                (case r_ensure_docker_available exec w1 of
                   (Inl e, w2) \<Rightarrow> (Inl e, w2)
                 | (Inr _, w2) \<Rightarrow>
                     r_run_docker_compose exec compose_path env_path (\<not> no_pull args) w2)))"

section \<open>scripts/install\_just.py\<close>

text \<open>\<open>subprocess.run(command, check=False)\<close>, returning the exit code.\<close>

definition run_command :: "executor \<Rightarrow> string list \<Rightarrow> int proc" where
  "run_command exec command w =
     (case exec command (sys w) of
        (NotFound, s) \<Rightarrow> (Inl FileNotFoundError, w\<lparr>sys := s, invoked := invoked w @ [command]\<rparr>)
      | (Exited c, s) \<Rightarrow> (Inr c, w\<lparr>sys := s, invoked := invoked w @ [command]\<rparr>))"

definition is_just_installed :: "world \<Rightarrow> bool \<times> world" where
  "is_just_installed w = which ''just'' w"

definition platform_name :: "world \<Rightarrow> string" where
  "platform_name w =
     (let os = lower (system (sys w))
      in if startswith os ''linux'' then ''linux''
         else if os = ''darwin'' then ''macos''
         else if os = ''windows'' then ''windows''
         else ''unknown'')"

text \<open>\<open>run(a) == 0 and run(b) == 0\<close>: the second command runs only after the first
  returned 0.\<close>

definition auto_install_linux :: "executor \<Rightarrow> bool proc" where
  "auto_install_linux exec w =
     (case which ''apt'' w of
        (True, w1) \<Rightarrow>
          (case run_command exec [''sudo'', ''apt'', ''update''] w1 of
             (Inl e, w2) \<Rightarrow> (Inl e, w2)
           | (Inr c, w2) \<Rightarrow>
               if c \<noteq> 0 then (Inr False, w2)
               else
                 (case run_command exec [''sudo'', ''apt'', ''install'', ''-y'', ''just''] w2 of
                    (Inl e, w3) \<Rightarrow> (Inl e, w3)
                  | (Inr d, w3) \<Rightarrow> (Inr (d = 0), w3)))
      | (False, w1) \<Rightarrow>
          (case which ''curl'' w1 of
             (True, w2) \<Rightarrow>
               (case run_command exec
                       [''bash'', ''-c'', ''curl -s https://just.systems/install.sh | bash''] w2 of
                  (Inl e, w3) \<Rightarrow> (Inl e, w3)
                | (Inr c, w3) \<Rightarrow> (Inr (c = 0), w3))
           | (False, w2) \<Rightarrow> (Inr False, w2)))"

definition auto_install_macos :: "executor \<Rightarrow> bool proc" where
  "auto_install_macos exec w =
     (case which ''brew'' w of
        (True, w1) \<Rightarrow>
          (case run_command exec [''brew'', ''install'', ''just''] w1 of
             (Inl e, w2) \<Rightarrow> (Inl e, w2)
           | (Inr c, w2) \<Rightarrow> (Inr (c = 0), w2))
      | (False, w1) \<Rightarrow> (Inr False, w1))"

definition auto_install_windows :: "executor \<Rightarrow> bool proc" where
  "auto_install_windows exec w =
     (case which ''scoop'' w of
        (True, w1) \<Rightarrow>
          (case run_command exec [''scoop'', ''install'', ''just''] w1 of
             (Inl e, w2) \<Rightarrow> (Inl e, w2)
           | (Inr c, w2) \<Rightarrow> (Inr (c = 0), w2))
      | (False, w1) \<Rightarrow>
          (case which ''choco'' w1 of
             (True, w2) \<Rightarrow>
               (case run_command exec [''choco'', ''install'', ''just'', ''-y''] w2 of
                  (Inl e, w3) \<Rightarrow> (Inl e, w3)
                | (Inr c, w3) \<Rightarrow> (Inr (c = 0), w3))
           | (False, w2) \<Rightarrow> (Inr False, w2)))"

definition attempt_auto_install :: "executor \<Rightarrow> bool proc" where
  "attempt_auto_install exec w =
     (let os = platform_name w
      in if os = ''linux'' then auto_install_linux exec w
         else if os = ''macos'' then auto_install_macos exec w
         else if os = ''windows'' then auto_install_windows exec w
         else (Inr False, w))"

text \<open>\<open>install_just\<close> always leaves by \<open>typer.Exit\<close>: code 0 reports that \<open>just\<close> is
  there, code 1 that it is not.\<close>

definition install_just :: "executor \<Rightarrow> bool \<Rightarrow> unit proc" where
  "install_just exec auto w =
     (case is_just_installed w of
        (True, w1) \<Rightarrow> (Inl (SystemExit 0), w1)
      | (False, w1) \<Rightarrow>
          if \<not> auto then (Inl (SystemExit 1), w1)
          else
            (case attempt_auto_install exec w1 of
               (Inl e, w2) \<Rightarrow> (Inl e, w2)
             | (Inr success, w2) \<Rightarrow>
                 if \<not> success then (Inl (SystemExit 1), w2)
                 else
                   (case is_just_installed w2 of
                      (True, w3) \<Rightarrow> (Inl (SystemExit 0), w3)
                    | (False, w3) \<Rightarrow> (Inl (SystemExit 1), w3))))"

section \<open>Concrete runs\<close>

text \<open>An executor that runs a command when its first word is on the search path,
  with exit code 0 and no effect, and fails to find it otherwise.\<close>

definition exec_on_path :: executor where
  "exec_on_path cmd s =
     (case cmd of
        [] \<Rightarrow> (NotFound, s)
      | c # _ \<Rightarrow> if c \<in> set (tools s) then (Exited 0, s) else (NotFound, s))"

text \<open>A machine with docker, a compose file and an env file.\<close>

definition w_ready :: world where
  "w_ready = \<lparr>sys = \<lparr>files = [(''compose.yml'', ''services: {}''), (''.env'', ''A=1'')],
                        tools = [''docker''], system = ''Linux''\<rparr>,
              stdin = [], invoked = [], probed = []\<rparr>"

text \<open>A machine with docker whose compose file and env file lie in subdirectories.\<close>

definition w_deploy :: world where
  "w_deploy = \<lparr>sys = \<lparr>files = [(''deploy/stack.yml'', ''services: {}''),
                                  (''conf/dev.env'', ''A=1'')],
                         tools = [''docker''], system = ''Linux''\<rparr>,
               stdin = [], invoked = [], probed = []\<rparr>"

text \<open>A directory whose ignore list holds the two lines \<open>a\<close> and \<open>b\<close>.\<close>

definition w_ignore :: world where
  "w_ignore = \<lparr>sys = \<lparr>files = [(''.gitignore'', ''a'' @ [CHR 0x0A] @ ''b'' @ [CHR 0x0A])],
                         tools = [], system = ''Linux''\<rparr>,
               stdin = [], invoked = [], probed = []\<rparr>"

text \<open>An empty directory, and a user who confirms, gives no token, and types two
  entries and a blank line.\<close>

definition w_prompt :: world where
  "w_prompt = \<lparr>sys = \<lparr>files = [], tools = [], system = ''Linux''\<rparr>,
               stdin = [''y'', '''', ''A=1'', ''B=2'', ''''], invoked = [], probed = []\<rparr>"

text \<open>A Linux machine with \<open>sudo\<close> and \<open>apt\<close> and without docker.\<close>

definition w_no_docker :: world where
  "w_no_docker = \<lparr>sys = \<lparr>files = [(''compose.yml'', ''services: {}''), (''.env'', ''A=1'')],
                            tools = [''sudo'', ''apt''], system = ''Linux''\<rparr>,
                  stdin = [], invoked = [], probed = []\<rparr>"

section \<open>Basic facts\<close>

lemmas fs_defs = exists_def read_text_def write_text_def

lemmas str_defs = strip_def isspace_def lower_def lower_char_def splitlines_def
  is_linebreak_def split_first_eq_def

lemmas path_defs = Path_def splitroot_def str_split_def Let_def

text \<open>What pathlib prints for some argument texts.\<close>

lemma Path_examples:
  "Path ''.env'' = ''.env''"
  "Path ''compose.yml'' = ''compose.yml''"
  "Path ''./compose.yml'' = ''compose.yml''"
  "Path ''./deploy//stack.yml'' = ''deploy/stack.yml''"
  "Path ''conf/./dev.env/'' = ''conf/dev.env''"
  "Path ''/srv//stack/../compose.yml'' = ''/srv/stack/../compose.yml''"
  "Path ''//srv/x'' = ''//srv/x''"
  "Path ''///srv/x'' = ''/srv/x''"
  "Path '''' = ''.''"
  by (simp_all add: path_defs)

lemma gitignore_entry_keeps:
  "fst (r_ensure_gitignore_entry p w) = Inr ()"
  "invoked (snd (r_ensure_gitignore_entry p w)) = invoked w"
  "probed (snd (r_ensure_gitignore_entry p w)) = probed w"
  "stdin (snd (r_ensure_gitignore_entry p w)) = stdin w"
  "tools (sys (snd (r_ensure_gitignore_entry p w))) = tools (sys w)"
  "system (sys (snd (r_ensure_gitignore_entry p w))) = system (sys w)"
  by (simp_all add: r_ensure_gitignore_entry_def write_text_def Let_def)

lemma parse_kv_loop_malformed:
  "p \<in> set ps \<Longrightarrow> CHR ''='' \<notin> set p \<Longrightarrow> \<exists>s. parse_kv_loop acc ps = Inl (ValueError s)"
  by (induction ps arbitrary: acc) auto

text \<open>The only exception that leaves the installer of \<open>just\<close> is a command that
  cannot be found.\<close>

lemma run_command_error:
  "run_command exec cmd w = (Inl e, w') \<Longrightarrow> e = FileNotFoundError"
  by (auto simp: run_command_def split: prod.splits run_result.splits)

lemma attempt_auto_install_error:
  "fst (attempt_auto_install exec w) = Inl e \<Longrightarrow> e = FileNotFoundError"
  by (auto simp: attempt_auto_install_def auto_install_linux_def auto_install_macos_def
      auto_install_windows_def Let_def
      dest: run_command_error
      split: prod.splits bool.splits sum.splits if_splits)

text \<open>\<open>install_just\<close> exits with 0 only when \<open>just\<close> is on the search path at its
  last lookup: the installer's clean exit alone is not enough.\<close>

lemma install_just_success_reprobed:
  "fst (install_just exec auto w) = Inl (SystemExit 0) \<Longrightarrow>
     ''just'' \<in> set (tools (sys (snd (install_just exec auto w))))"
  using attempt_auto_install_error [of exec "snd (is_just_installed w)" "SystemExit 0"]
  by (auto simp: install_just_def is_just_installed_def which_def
      split: prod.splits bool.splits sum.splits if_splits)

section \<open>The claims\<close>

text \<open>
  C1. Round trip of the key-value writer: writing entries gives one newline-terminated
  \<open>KEY=VALUE\<close> line per entry, and parsing the file line by line recovers the pairs.
  The code joins the lines with the empty string and appends the empty string, in
  \<open>main\<close> (line 32) and in \<open>r_prompt_new_env\<close> (line 61): the entries \<open>(A,1)\<close>, \<open>(B,2)\<close>
  become the text \<open>A=1B=2\<close>, which parses to the single pair \<open>(A, 1B=2)\<close>.
\<close>

theorem writer_roundtrip_fails:
  "env_text (env_lines [(''A'', ''1''), (''B'', ''2'')]) = ''A=1B=2'' \<and>
   read_text ''.env'' (snd (r_prompt_new_env ''.env'' w_prompt)) = ''A=1B=2'' \<and>
   parse_kv (splitlines ''A=1B=2'') = Inr [(''A'', ''1B=2'')]"
  by (simp add: env_text_def env_lines_def r_prompt_new_env_def w_prompt_def input_def
      getpass_def pat_lines_def r_ensure_gitignore_entry_def fs_defs str_defs Let_def parse_kv_def)

text \<open>
  C2. Idempotence of ensure-ignored: a second call with the same arguments leaves the
  ignore list as the first call left it, and no call disturbs unrelated lines.
  Both functions rewrite the list with its lines joined by the empty string: on the
  list \<open>a\<close>, \<open>b\<close> the first call for \<open>.env\<close> leaves the single line \<open>ab.env\<close>, in which
  the second call does not find \<open>.env\<close> and appends it again.
\<close>

theorem ensure_ignored_not_idempotent:
  "read_text ''.gitignore'' (snd (r_ensure_gitignore_entry ''.env'' w_ignore)) = ''ab.env'' \<and>
   read_text ''.gitignore''
     (snd (r_ensure_gitignore_entry ''.env'' (snd (r_ensure_gitignore_entry ''.env'' w_ignore))))
     = ''ab.env.env'' \<and>
   read_text ''.gitignore'' (snd (ensure_gitignore ''.env'' w_ignore)) = ''ab.env'' \<and>
   read_text ''.gitignore''
     (snd (ensure_gitignore ''.env'' (snd (ensure_gitignore ''.env'' w_ignore))))
     = ''ab.env.env''"
  by (simp add: r_ensure_gitignore_entry_def ensure_gitignore_def w_ignore_def fs_defs
      splitlines_def is_linebreak_def Let_def)

text \<open>
  C3, as amended. Launch sequencing: when the compose file and the env file exist and
  docker is on the search path, \<open>r_main\<close> invokes exactly one command, \<open>up\<close>, under
  \<open>--no-pull\<close>; otherwise it invokes \<open>pull\<close> first and, when \<open>pull\<close> returns 0, \<open>up\<close>
  second, exactly these two. Each command names the compose file and the env file as
  pathlib prints the given arguments, \<open>str(Path(arg))\<close>, which is the argument itself
  only when it is already in that form. When \<open>pull\<close> returns \<open>k\<close> other than 0 the run
  exits with \<open>k\<close> and \<open>up\<close> is not invoked; when the executable is not found it exits
  with 1.
\<close>

theorem launch_sequencing:
  assumes "exists (Path c) w" and "exists (Path e) w" and "''docker'' \<in> set (tools (sys w))"
  shows
   "invoked (snd (r_main exec \<lparr>cli_env_file = Some e, cli_compose_file = Some c, cli_no_pull = True\<rparr> w))
      = invoked w @ [[''docker'', ''compose'', ''--file'', Path c, ''--env-file'', Path e, ''up'']] \<and>
    (fst (exec [''docker'', ''compose'', ''--file'', Path c, ''--env-file'', Path e, ''pull'']
            (sys (snd (r_ensure_gitignore_entry (Path e) w)))) = Exited 0 \<longrightarrow>
       invoked (snd (r_main exec \<lparr>cli_env_file = Some e, cli_compose_file = Some c, cli_no_pull = False\<rparr> w))
         = invoked w @ [[''docker'', ''compose'', ''--file'', Path c, ''--env-file'', Path e, ''pull''],
                        [''docker'', ''compose'', ''--file'', Path c, ''--env-file'', Path e, ''up'']]) \<and>
    (k \<noteq> 0 \<and>
     fst (exec [''docker'', ''compose'', ''--file'', Path c, ''--env-file'', Path e, ''pull'']
            (sys (snd (r_ensure_gitignore_entry (Path e) w)))) = Exited k \<longrightarrow>
       fst (r_main exec \<lparr>cli_env_file = Some e, cli_compose_file = Some c, cli_no_pull = False\<rparr> w)
         = Inl (SystemExit k) \<and>
       invoked (snd (r_main exec \<lparr>cli_env_file = Some e, cli_compose_file = Some c, cli_no_pull = False\<rparr> w))
         = invoked w @ [[''docker'', ''compose'', ''--file'', Path c, ''--env-file'', Path e, ''pull'']]) \<and>
    (fst (exec [''docker'', ''compose'', ''--file'', Path c, ''--env-file'', Path e, ''pull'']
            (sys (snd (r_ensure_gitignore_entry (Path e) w)))) = NotFound \<longrightarrow>
       fst (r_main exec \<lparr>cli_env_file = Some e, cli_compose_file = Some c, cli_no_pull = False\<rparr> w)
         = Inl (SystemExit 1) \<and>
       invoked (snd (r_main exec \<lparr>cli_env_file = Some e, cli_compose_file = Some c, cli_no_pull = False\<rparr> w))
         = invoked w @ [[''docker'', ''compose'', ''--file'', Path c, ''--env-file'', Path e, ''pull'']])"
proof -
  obtain w1 where w1: "r_ensure_gitignore_entry (Path e) w = (Inr (), w1)"
    using gitignore_entry_keeps(1) [of "Path e" w]
    by (cases "r_ensure_gitignore_entry (Path e) w") simp
  have keep: "invoked w1 = invoked w" "tools (sys w1) = tools (sys w)"
    using gitignore_entry_keeps(2,5) [of "Path e" w] w1 by simp_all
  have env: "r_ensure_env_file (Path e) w = (Inr (), w1)"
    using assms(2) w1 by (simp add: r_ensure_env_file_def)
  have dock: "r_ensure_docker_available exec w1 = (Inr (), w1\<lparr>probed := probed w1 @ [''docker'']\<rparr>)"
    using assms(3) keep by (simp add: r_ensure_docker_available_def which_def)
  show ?thesis
    using assms(1) env dock keep w1
    by (auto simp: r_main_def r_parse_runner_args_def Let_def r_run_docker_compose_def
        r_run_command_def base_cmd_def split: prod.splits run_result.splits)
qed

theorem launch_sequencing_witness:
  "exists (Path ''./deploy//stack.yml'') w_deploy \<and> exists (Path ''conf/./dev.env/'') w_deploy \<and>
   ''docker'' \<in> set (tools (sys w_deploy)) \<and>
   invoked (snd (r_main exec_on_path
      \<lparr>cli_env_file = Some ''conf/./dev.env/'', cli_compose_file = Some ''./deploy//stack.yml'',
       cli_no_pull = True\<rparr> w_deploy))
     = [[''docker'', ''compose'', ''--file'', ''deploy/stack.yml'', ''--env-file'', ''conf/dev.env'',
         ''up'']] \<and>
   invoked (snd (r_main exec_on_path
      \<lparr>cli_env_file = Some ''conf/./dev.env/'', cli_compose_file = Some ''./deploy//stack.yml'',
       cli_no_pull = False\<rparr> w_deploy))
     = [[''docker'', ''compose'', ''--file'', ''deploy/stack.yml'', ''--env-file'', ''conf/dev.env'',
         ''pull''],
        [''docker'', ''compose'', ''--file'', ''deploy/stack.yml'', ''--env-file'', ''conf/dev.env'',
         ''up'']]"
proof -
  have p: "Path ''./deploy//stack.yml'' = ''deploy/stack.yml''"
          "Path ''conf/./dev.env/'' = ''conf/dev.env''"
    by (simp_all add: path_defs)
  have h1: "exists (Path ''./deploy//stack.yml'') w_deploy"
    and h2: "exists (Path ''conf/./dev.env/'') w_deploy"
    and h3: "''docker'' \<in> set (tools (sys w_deploy))"
    by (simp_all add: p exists_def w_deploy_def)
  have h4: "fst (exec_on_path
               [''docker'', ''compose'', ''--file'', Path ''./deploy//stack.yml'', ''--env-file'',
                Path ''conf/./dev.env/'', ''pull'']
               (sys (snd (r_ensure_gitignore_entry (Path ''conf/./dev.env/'') w_deploy)))) = Exited 0"
    by (simp add: p exec_on_path_def r_ensure_gitignore_entry_def exists_def w_deploy_def)
  have h5: "invoked w_deploy = []"
    by (simp add: w_deploy_def)
  show ?thesis
    using h1 h2 h3 h4 h5 p
      launch_sequencing [OF h1 h2 h3, of exec_on_path 1]
    by simp
qed

text \<open>C3 as the specification states it, commands that name the given paths verbatim,
  does not hold: for \<open>--compose-file ./compose.yml\<close> the two commands name
  \<open>compose.yml\<close>.\<close>

theorem launch_verbatim_counterexample:
  "invoked (snd (r_main exec_on_path
      \<lparr>cli_env_file = Some ''.env'', cli_compose_file = Some ''./compose.yml'', cli_no_pull = False\<rparr>
      w_ready))
     = [[''docker'', ''compose'', ''--file'', ''compose.yml'', ''--env-file'', ''.env'', ''pull''],
        [''docker'', ''compose'', ''--file'', ''compose.yml'', ''--env-file'', ''.env'', ''up'']] \<and>
   invoked (snd (r_main exec_on_path
      \<lparr>cli_env_file = Some ''.env'', cli_compose_file = Some ''./compose.yml'', cli_no_pull = False\<rparr>
      w_ready))
     \<noteq> [[''docker'', ''compose'', ''--file'', ''./compose.yml'', ''--env-file'', ''.env'', ''pull''],
        [''docker'', ''compose'', ''--file'', ''./compose.yml'', ''--env-file'', ''.env'', ''up'']]"
proof -
  have p: "Path ''./compose.yml'' = ''compose.yml''" "Path ''.env'' = ''.env''"
    by (simp_all add: path_defs)
  show ?thesis
    by (simp add: p r_main_def r_parse_runner_args_def r_ensure_env_file_def
        r_ensure_gitignore_entry_def r_ensure_docker_available_def which_def
        r_run_docker_compose_def r_run_command_def exec_on_path_def base_cmd_def
        exists_def w_ready_def Let_def)
qed

text \<open>
  C4. Interactive collector transcript: on the terminal lines \<open>y\<close>, blank, \<open>FOO=bar\<close>,
  blank the collected lines are exactly \<open>FOO=bar\<close>, the pair \<open>(FOO, bar)\<close>: no token
  entry, one free-form entry, the blank line ends the loop, and that text is what is
  written. On \<open>n\<close> the run exits with status 1 with nothing but that line consumed.
  A line that is not blank and holds no \<open>=\<close> is dropped and the loop goes on with
  the next line.
\<close>

theorem collector_transcript:
  "extra_env_loop (pat_lines (strip '''')) [''FOO=bar'', ''''] = (Inr [''FOO=bar''], []) \<and>
   parse_kv [''FOO=bar''] = Inr [(''FOO'', ''bar'')] \<and>
   r_prompt_new_env p (w\<lparr>stdin := [''y'', '''', ''FOO=bar'', '''']\<rparr>)
     = r_ensure_gitignore_entry p (write_text p ''FOO=bar'' (w\<lparr>stdin := []\<rparr>)) \<and>
   r_prompt_new_env p (w\<lparr>stdin := ''n'' # rest\<rparr>) = (Inl (SystemExit 1), w\<lparr>stdin := rest\<rparr>) \<and>
   (strip l \<noteq> [] \<and> CHR ''='' \<notin> set (strip l) \<longrightarrow>
      extra_env_loop lines (l # ls) = extra_env_loop lines ls)"
proof -
  have loop: "extra_env_loop (pat_lines (strip '''')) [''FOO=bar'', ''''] = (Inr [''FOO=bar''], [])"
    by (simp add: pat_lines_def str_defs)
  have parse: "parse_kv [''FOO=bar''] = Inr [(''FOO'', ''bar'')]"
    by (simp add: parse_kv_def split_first_eq_def)
  have yes: "r_prompt_new_env p (w\<lparr>stdin := [''y'', '''', ''FOO=bar'', '''']\<rparr>)
     = r_ensure_gitignore_entry p (write_text p ''FOO=bar'' (w\<lparr>stdin := []\<rparr>))"
    by (simp add: r_prompt_new_env_def input_def getpass_def pat_lines_def str_defs)
  have no: "r_prompt_new_env p (w\<lparr>stdin := ''n'' # rest\<rparr>) = (Inl (SystemExit 1), w\<lparr>stdin := rest\<rparr>)"
    by (simp add: r_prompt_new_env_def input_def str_defs)
  have retry: "strip l \<noteq> [] \<and> CHR ''='' \<notin> set (strip l) \<longrightarrow>
      extra_env_loop lines (l # ls) = extra_env_loop lines ls"
    by (simp add: Let_def)
  from loop parse yes no retry show ?thesis by blast
qed

theorem collector_transcript_witness:
  "strip ''FOO'' \<noteq> [] \<and> CHR ''='' \<notin> set (strip ''FOO'') \<and>
   extra_env_loop [] [''FOO'', ''FOO=bar'', ''''] = extra_env_loop [] [''FOO=bar'', ''''] \<and>
   extra_env_loop [] [''FOO'', ''FOO=bar'', ''''] = (Inr [''FOO=bar''], []) \<and>
   r_prompt_new_env ''.env'' (w_prompt\<lparr>stdin := [''n'']\<rparr>)
     = (Inl (SystemExit 1), w_prompt\<lparr>stdin := []\<rparr>)"
  using collector_transcript [of "''.env''" w_prompt "[]" "''FOO''" "[]" "[''FOO=bar'', '''']"]
  by (simp add: str_defs)

text \<open>
  C5, as amended. With \<open>--github-pat TOKEN\<close> and no \<open>KEY=VALUE\<close> pair the invocation is
  rejected: the parser requires one or more pairs, the run ends with a non-zero exit
  status, and no file is written.
\<close>

theorem token_only_rejected:
  "parse_args \<lparr>cli_github_pat = Some t, cli_out = dest, cli_pairs = []\<rparr> = Inl (SystemExit 2) \<and>
   main_from_line_22 \<lparr>cli_github_pat = Some t, cli_out = dest, cli_pairs = []\<rparr> w
     = (Inl (SystemExit 2), w) \<and>
   exit_status (fst (main \<lparr>cli_github_pat = Some t, cli_out = dest, cli_pairs = []\<rparr> w)) \<noteq> 0 \<and>
   snd (main \<lparr>cli_github_pat = Some t, cli_out = dest, cli_pairs = []\<rparr> w) = w"
  by (simp add: parse_args_def main_from_line_22_def main_def add_argument_github_pat_def)

text \<open>C5 as the specification states it, success and an output file of the one line
  \<open>GITHUB_PERSONAL_ACCESS_TOKEN=TOKEN\<close>, does not hold in an empty directory.\<close>

theorem token_only_counterexample:
  "\<not> (fst (main \<lparr>cli_github_pat = Some ''TOKEN'', cli_out = Some ''.env'', cli_pairs = []\<rparr> w_prompt)
          = Inr () \<and>
       read_text ''.env''
         (snd (main \<lparr>cli_github_pat = Some ''TOKEN'', cli_out = Some ''.env'', cli_pairs = []\<rparr> w_prompt))
          = ''GITHUB_PERSONAL_ACCESS_TOKEN=TOKEN'' @ [CHR 0x0A])"
  by (simp add: main_def add_argument_github_pat_def)

text \<open>
  C6. Remediation success: an attempt counts as a success only when the installer
  exits cleanly and a new lookup finds the tool. \<open>install_just\<close> does so
  (\<open>install_just_success_reprobed\<close>). \<open>r_try_install_docker_linux\<close> does not look
  docker up again: on a Linux machine where both \<open>apt\<close> commands return 0 and docker
  is still not on the search path, \<open>r_ensure_docker_available\<close> returns normally, the
  three lookups it made all precede the installer, and \<open>r_main\<close> goes on to invoke
  \<open>docker compose pull\<close>.
\<close>

theorem docker_linux_no_reprobe:
  "fst (r_ensure_docker_available exec_on_path w_no_docker) = Inr () \<and>
   ''docker'' \<notin> set (tools (sys (snd (r_ensure_docker_available exec_on_path w_no_docker)))) \<and>
   probed (snd (r_ensure_docker_available exec_on_path w_no_docker))
     = [''docker'', ''docker'', ''apt''] \<and>
   invoked (snd (r_ensure_docker_available exec_on_path w_no_docker))
     = [[''sudo'', ''apt'', ''update''],
        [''sudo'', ''apt'', ''install'', ''-y'', ''docker.io'', ''docker-compose-plugin'']] \<and>
   invoked (snd (r_main exec_on_path
      \<lparr>cli_env_file = None, cli_compose_file = None, cli_no_pull = False\<rparr> w_no_docker))
     = [[''sudo'', ''apt'', ''update''],
        [''sudo'', ''apt'', ''install'', ''-y'', ''docker.io'', ''docker-compose-plugin''],
        [''docker'', ''compose'', ''--file'', ''compose.yml'', ''--env-file'', ''.env'', ''pull'']]"
  by (simp add: r_ensure_docker_available_def r_try_install_docker_linux_def which_def
      r_run_command_def exec_on_path_def w_no_docker_def r_main_def r_parse_runner_args_def
      r_ensure_env_file_def r_ensure_gitignore_entry_def exists_def r_run_docker_compose_def
      base_cmd_def Let_def Path_examples)

text \<open>
  C7. Malformed pair rejection: a string without \<open>=\<close> makes \<open>parse_kv\<close> raise
  \<open>ValueError\<close>, alone or anywhere in the list of pairs, and in \<open>main\<close> the error comes
  before any write: the run ends with a non-zero exit status and the output file and
  the ignore list are as they were.
\<close>

theorem malformed_pair_rejected:
  assumes "p \<in> set ps" and "CHR ''='' \<notin> set p"
  shows "parse_kv [p] = Inl (ValueError (''Invalid pair: '' @ p)) \<and>
         (\<exists>s. parse_kv ps = Inl (ValueError s)) \<and>
         (\<exists>s. main_from_line_22 \<lparr>cli_github_pat = g, cli_out = dest, cli_pairs = ps\<rparr> w
                 = (Inl (ValueError s), w)) \<and>
         exit_status (fst (main \<lparr>cli_github_pat = g, cli_out = dest, cli_pairs = ps\<rparr> w)) \<noteq> 0 \<and>
         snd (main \<lparr>cli_github_pat = g, cli_out = dest, cli_pairs = ps\<rparr> w) = w"
proof -
  obtain s where s: "parse_kv ps = Inl (ValueError s)"
    using parse_kv_loop_malformed [OF assms, of "[]"] by (auto simp: parse_kv_def)
  have ne: "ps \<noteq> []" using assms(1) by auto
  have "main_from_line_22 \<lparr>cli_github_pat = g, cli_out = dest, cli_pairs = ps\<rparr> w
          = (Inl (ValueError s), w)"
    using s ne by (simp add: main_from_line_22_def parse_args_def)
  then show ?thesis
    using s assms(2) by (simp add: parse_kv_def main_def add_argument_github_pat_def)
qed

theorem malformed_pair_rejected_witness:
  "''B'' \<in> set [''A=1'', ''B''] \<and> CHR ''='' \<notin> set ''B'' \<and>
   parse_kv [''B''] = Inl (ValueError ''Invalid pair: B'') \<and>
   parse_kv [''A=1'', ''B''] = Inl (ValueError ''Invalid pair: B'') \<and>
   main_from_line_22 \<lparr>cli_github_pat = None, cli_out = None, cli_pairs = [''A=1'', ''B'']\<rparr> w_ignore
     = (Inl (ValueError ''Invalid pair: B''), w_ignore) \<and>
   snd (main \<lparr>cli_github_pat = None, cli_out = None, cli_pairs = [''A=1'', ''B'']\<rparr> w_ignore)
     = w_ignore"
proof -
  have h1: "''B'' \<in> set [''A=1'', ''B'']" and h2: "CHR ''='' \<notin> set ''B''"
    by simp_all
  show ?thesis
    using h1 h2 malformed_pair_rejected [OF h1 h2, of None None w_ignore]
    by (simp add: parse_kv_def main_from_line_22_def parse_args_def split_first_eq_def)
qed

text \<open>
  C8. Fail fast on a missing compose file: when the compose path does not exist,
  \<open>r_main\<close> exits with status 1 and the world is as it was: no file written, no line
  read from the terminal, no lookup on the search path, no command invoked.
\<close>

theorem missing_compose_fails_fast:
  "\<not> exists (Path (compose_file (r_parse_runner_args cli))) w \<Longrightarrow>
     r_main exec cli w = (Inl (SystemExit 1), w)"
  by (simp add: r_main_def Let_def)

theorem missing_compose_fails_fast_witness:
  "\<not> exists (Path (compose_file (r_parse_runner_args
        \<lparr>cli_env_file = None, cli_compose_file = Some ''./deploy/stack.yml'', cli_no_pull = False\<rparr>)))
      w_ready \<and>
   r_main exec_on_path
     \<lparr>cli_env_file = None, cli_compose_file = Some ''./deploy/stack.yml'', cli_no_pull = False\<rparr> w_ready
     = (Inl (SystemExit 1), w_ready)"
proof -
  have h: "\<not> exists (Path (compose_file (r_parse_runner_args
        \<lparr>cli_env_file = None, cli_compose_file = Some ''./deploy/stack.yml'', cli_no_pull = False\<rparr>)))
      w_ready"
    by (simp add: exists_def r_parse_runner_args_def w_ready_def path_defs)
  show ?thesis using h missing_compose_fails_fast [OF h, of exec_on_path] by simp
qed

text \<open>
  C9. A missing ignore list is a successful no-op: when \<open>.gitignore\<close> does not exist,
  both ensure-ignored functions return normally and leave the world, and so every
  file, as it was.
\<close>

theorem missing_ignore_list_noop:
  "\<not> exists ''.gitignore'' w \<Longrightarrow>
     r_ensure_gitignore_entry p w = (Inr (), w) \<and> ensure_gitignore p w = (Inr (), w)"
  by (simp add: r_ensure_gitignore_entry_def ensure_gitignore_def)

theorem missing_ignore_list_noop_witness:
  "\<not> exists ''.gitignore'' w_prompt \<and>
   r_ensure_gitignore_entry ''.env'' w_prompt = (Inr (), w_prompt) \<and>
   ensure_gitignore ''.env'' w_prompt = (Inr (), w_prompt)"
proof -
  have h: "\<not> exists ''.gitignore'' w_prompt"
    by (simp add: exists_def w_prompt_def)
  show ?thesis using h missing_ignore_list_noop [OF h, of "''.env''"] by simp
qed

text \<open>
  C10. The positional pairs are declared with \<open>nargs="+"\<close>: an invocation without any,
  also one that gives \<open>--github-pat\<close> and \<open>--out\<close>, is rejected by the parser with
  status 2 before \<open>parse_kv\<close> runs; the run ends with a non-zero exit status and
  nothing is written.
\<close>

theorem zero_pairs_rejected:
  "cli_pairs cli = [] \<Longrightarrow>
     parse_args cli = Inl (SystemExit 2) \<and>
     main_from_line_22 cli w = (Inl (SystemExit 2), w) \<and>
     exit_status (fst (main cli w)) \<noteq> 0 \<and>
     snd (main cli w) = w"
  by (simp add: parse_args_def main_from_line_22_def main_def add_argument_github_pat_def)

theorem zero_pairs_rejected_witness:
  "cli_pairs \<lparr>cli_github_pat = Some ''TOKEN'', cli_out = Some ''out.env'', cli_pairs = []\<rparr> = [] \<and>
   main_from_line_22 \<lparr>cli_github_pat = Some ''TOKEN'', cli_out = Some ''out.env'', cli_pairs = []\<rparr> w_ignore
     = (Inl (SystemExit 2), w_ignore) \<and>
   snd (main \<lparr>cli_github_pat = Some ''TOKEN'', cli_out = Some ''out.env'', cli_pairs = []\<rparr> w_ignore)
     = w_ignore"
  using zero_pairs_rejected
    [of "\<lparr>cli_github_pat = Some ''TOKEN'', cli_out = Some ''out.env'', cli_pairs = []\<rparr>" w_ignore]
  by simp

end
